theory Spec2Isabelle
  imports Main "HOL-Library.AList"
begin

section \<open>Python values and the operations the device manager applies to them\<close>

text \<open>
  The device manager works on whatever \<^verbatim>\<open>json.load\<close> and the transport client hand
  back: untyped nests of dicts, lists, strings and numbers. The model keeps them untyped.
  A dict is an association list whose keys are distinct, looked up with \<open>map_of\<close> and
  written with \<open>AList.update\<close> (which, like a Python dict, keeps the position of a key
  that is already there). Two restrictions: a number with a fraction or an exponent
  (a Python float) has no counterpart, and a \<open>char\<close> stands for a code point below 256.
\<close>

datatype json =
    JNull
  | JBool bool
  | JInt int
  | JStr string
  | JList "json list"
  | JDict "(string \<times> json) list"

datatype py_error =
    TypeError
  | ValueError
  | AttributeError
  | KeyError
  | OSError
  | TransportError

text \<open>Sequencing of computations that may raise: the first error ends the block.\<close>

definition try_bind :: "'e + 'a \<Rightarrow> ('a \<Rightarrow> 'e + 'b) \<Rightarrow> 'e + 'b" where
  "try_bind m f = (case m of Inl e \<Rightarrow> Inl e | Inr v \<Rightarrow> f v)"

text \<open>Truth value of an object (\<^verbatim>\<open>if x:\<close>, \<^verbatim>\<open>not x\<close>).\<close>

fun truthy :: "json \<Rightarrow> bool" where
  "truthy JNull = False"
| "truthy (JBool b) = b"
| "truthy (JInt n) = (n \<noteq> 0)"
| "truthy (JStr s) = (s \<noteq> [])"
| "truthy (JList xs) = (xs \<noteq> [])"
| "truthy (JDict d) = (d \<noteq> [])"

text \<open>\<^verbatim>\<open>a or b\<close>: the first operand when it is truthy, else the second.\<close>

definition por :: "json \<Rightarrow> json \<Rightarrow> json" where
  "por a b = (if truthy a then a else b)"

text \<open>\<^verbatim>\<open>isinstance(x, int)\<close> holds for a bool too, as in Python.\<close>

fun is_int :: "json \<Rightarrow> bool" where
  "is_int (JInt n) = True"
| "is_int (JBool b) = True"
| "is_int _ = False"

fun is_str :: "json \<Rightarrow> bool" where
  "is_str (JStr s) = True"
| "is_str _ = False"

fun is_list :: "json \<Rightarrow> bool" where
  "is_list (JList xs) = True"
| "is_list _ = False"

text \<open>\<^verbatim>\<open>d.get(k)\<close> on a dict: the value, or None when the key is missing.\<close>

definition dict_get :: "(string \<times> json) list \<Rightarrow> string \<Rightarrow> json" where
  "dict_get d k = (case map_of d k of None \<Rightarrow> JNull | Some v \<Rightarrow> v)"

subsection \<open>\<^verbatim>\<open>str.strip\<close>, \<^verbatim>\<open>str.lstrip('#')\<close> and \<^verbatim>\<open>int(s, base)\<close>\<close>

text \<open>
  Among the code points below 256, \<^verbatim>\<open>str.strip()\<close> removes 9 to 13, 28 to 31, 32,
  133 and 160; \<^verbatim>\<open>int\<close> skips the same ones at both ends except 28 to 31.
\<close>

definition py_isspace :: "char \<Rightarrow> bool" where
  "py_isspace c =
     (let n = (of_char c :: nat)
      in (9 \<le> n \<and> n \<le> 13) \<or> (28 \<le> n \<and> n \<le> 32) \<or> n = 133 \<or> n = 160)"

definition int_isspace :: "char \<Rightarrow> bool" where
  "int_isspace c =
     (let n = (of_char c :: nat)
      in (9 \<le> n \<and> n \<le> 13) \<or> n = 32 \<or> n = 133 \<or> n = 160)"

definition strip_with :: "(char \<Rightarrow> bool) \<Rightarrow> string \<Rightarrow> string" where
  "strip_with p s = rev (dropWhile p (rev (dropWhile p s)))"

definition py_strip :: "string \<Rightarrow> string" where
  "py_strip s = strip_with py_isspace s"

definition lstrip_hash :: "string \<Rightarrow> string" where
  "lstrip_hash s = dropWhile (\<lambda>c. c = CHR ''#'') s"

definition digit_val :: "char \<Rightarrow> nat option" where
  "digit_val c =
     (let n = (of_char c :: nat)
      in if 48 \<le> n \<and> n \<le> 57 then Some (n - 48)
         else if 97 \<le> n \<and> n \<le> 122 then Some (n - 87)
         else if 65 \<le> n \<and> n \<le> 90 then Some (n - 55)
         else None)"

text \<open>
  The digits of an integer literal: digits below the base, single underscores between
  them. The flag says that the previous character was an underscore.
\<close>

fun parse_digits :: "nat \<Rightarrow> bool \<Rightarrow> nat \<Rightarrow> string \<Rightarrow> nat option" where
  "parse_digits b us acc [] = (if us then None else Some acc)"
| "parse_digits b us acc (c # cs) =
     (if c = CHR ''_'' then (if us then None else parse_digits b True acc cs)
      else (case digit_val c of
              None \<Rightarrow> None
            | Some d \<Rightarrow> if d < b then parse_digits b False (acc * b + d) cs else None))"

text \<open>
  \<^verbatim>\<open>int(s, base)\<close> for base 10 and 16: surrounding whitespace, an optional sign, for
  base 16 an optional \<^verbatim>\<open>0x\<close> prefix (one underscore may follow it), then the digits.
  \<open>None\<close> stands for the ValueError. The interpreter's limit on the number of digits
  of a literal is not modelled.
\<close>

definition py_int_str :: "nat \<Rightarrow> string \<Rightarrow> int option" where
  "py_int_str b s =
     (let t = strip_with int_isspace s;
          neg = (take 1 t = ''-'');
          r = (if take 1 t = ''-'' \<or> take 1 t = ''+'' then drop 1 t else t);
          r2 = (if b = 16 \<and> (take 2 r = ''0x'' \<or> take 2 r = ''0X'')
                then (if take 1 (drop 2 r) = ''_'' then drop 3 r else drop 2 r)
                else r)
      in if r2 = [] \<or> take 1 r2 = ''_'' then None
         else map_option (\<lambda>n. if neg then - int n else int n) (parse_digits b False 0 r2))"

text \<open>\<^verbatim>\<open>int(x)\<close> on a value: a number as it is, a string parsed in base 10.\<close>

fun py_int :: "json \<Rightarrow> py_error + int" where
  "py_int (JInt n) = Inr n"
| "py_int (JBool b) = Inr (if b then 1 else 0)"
| "py_int (JStr s) = (case py_int_str 10 s of None \<Rightarrow> Inl ValueError | Some n \<Rightarrow> Inr n)"
| "py_int _ = Inl TypeError"

subsection \<open>\<^verbatim>\<open>_hex_to_rgb\<close>\<close>

text \<open>
  The helper nested in \<^verbatim>\<open>set_device_power\<close> and, word for word, in
  \<^verbatim>\<open>apply_saved_state\<close>: None for a value that is empty or not a string; otherwise the
  text is stripped, leading \<^verbatim>\<open>#\<close> removed, three characters doubled to six, and the three
  pairs are read with \<^verbatim>\<open>int(pair, 16)\<close>; any failure gives None.
\<close>

definition double_chars :: "string \<Rightarrow> string" where
  "double_chars s = concat (map (\<lambda>c. [c, c]) s)"

fun hex_to_rgb :: "json \<Rightarrow> (int \<times> int \<times> int) option" where
  "hex_to_rgb (JStr hex_str) =
     (if hex_str = [] then None
      else
        (let s0 = lstrip_hash (py_strip hex_str);
             s = (if length s0 = 3 then double_chars s0 else s0)
         in if length s \<noteq> 6 then None
            else (case py_int_str 16 (take 2 s) of
                    None \<Rightarrow> None
                  | Some r \<Rightarrow>
                      (case py_int_str 16 (take 2 (drop 2 s)) of
                         None \<Rightarrow> None
                       | Some g \<Rightarrow>
                           (case py_int_str 16 (take 2 (drop 4 s)) of
                              None \<Rightarrow> None
                            | Some b \<Rightarrow> Some (r, g, b))))))"
| "hex_to_rgb _ = None"

section \<open>The segment mapping engine\<close>

subsection \<open>LED count discovery\<close>

text \<open>
  Both reconciliation paths read the strip length out of the device's state response
  with the same statements (lines 281 to 297 and 435 to 448 of device\_manager.py).
  \<^verbatim>\<open>k in x\<close> for a string \<open>k\<close> is a key test on a dict, a substring test on
  a string, a membership test on a list and a TypeError on anything else.
\<close>

fun has_infix :: "string \<Rightarrow> string \<Rightarrow> bool" where
  "has_infix p [] = (p = [])"
| "has_infix p (c # cs) = (take (length p) (c # cs) = p \<or> has_infix p cs)"

fun py_contains :: "string \<Rightarrow> json \<Rightarrow> py_error + bool" where
  "py_contains k (JDict d) = Inr (k \<in> set (map fst d))"
| "py_contains k (JStr s) = Inr (has_infix k s)"
| "py_contains k (JList xs) = Inr (JStr k \<in> set xs)"
| "py_contains k _ = Inl TypeError"

text \<open>\<^verbatim>\<open>any('len' in s for s in seg)\<close> stops at the first hit.\<close>

fun any_has_len :: "json list \<Rightarrow> py_error + bool" where
  "any_has_len [] = Inr False"
| "any_has_len (s # ss) =
     (case py_contains ''len'' s of
        Inl e \<Rightarrow> Inl e
      | Inr True \<Rightarrow> Inr True
      | Inr False \<Rightarrow> any_has_len ss)"

text \<open>\<^verbatim>\<open>sum((s.get('len') or 0) for s in seg)\<close>, from the start value 0.\<close>

fun sum_len :: "int \<Rightarrow> json list \<Rightarrow> py_error + int" where
  "sum_len acc [] = Inr acc"
| "sum_len acc (s # ss) =
     (case s of
        JDict d \<Rightarrow>
          (case por (dict_get d ''len'') (JInt 0) of
             JInt n \<Rightarrow> sum_len (acc + n) ss
           | JBool b \<Rightarrow> sum_len (acc + (if b then 1 else 0)) ss
           | _ \<Rightarrow> Inl TypeError)
      | _ \<Rightarrow> Inl AttributeError)"

text \<open>
  \<open>count_from_info\<close> is steps 1 and 1b (the \<^verbatim>\<open>info\<close> object), \<open>count_from_seg\<close>
  step 2 (the sum of the segments' \<^verbatim>\<open>len\<close>), \<open>count_from_top\<close> step 3 (the
  top-level \<^verbatim>\<open>leds\<close> or \<^verbatim>\<open>length\<close>). Each later step runs only while
  \<^verbatim>\<open>total_leds\<close> is still falsy.
\<close>

definition count_from_info :: "json \<Rightarrow> json" where
  "count_from_info info =
     (case info of
        JDict i \<Rightarrow>
          (let total_leds =
                 (case dict_get i ''leds'' of
                    JDict l \<Rightarrow> por (dict_get l ''count'') (dict_get l ''led_count'')
                  | _ \<Rightarrow> JNull)
           in if \<not> truthy total_leds
              then por (por (dict_get i ''leds'') (dict_get i ''led_count'')) (dict_get i ''count'')
              else total_leds)
      | _ \<Rightarrow> JNull)"

definition count_from_seg :: "(string \<times> json) list \<Rightarrow> json \<Rightarrow> py_error + json" where
  "count_from_seg state_root total_leds =
     (if truthy total_leds then Inr total_leds
      else (case dict_get state_root ''seg'' of
              JList seg \<Rightarrow>
                try_bind (any_has_len seg) (\<lambda>found.
                  if found then try_bind (sum_len 0 seg) (\<lambda>n. Inr (JInt n))
                  else Inr total_leds)
            | _ \<Rightarrow> Inr total_leds))"

definition count_from_top :: "(string \<times> json) list \<Rightarrow> json \<Rightarrow> json" where
  "count_from_top state_root total_leds =
     (if truthy total_leds then total_leds
      else (let top_len = por (por (dict_get state_root ''leds'') (dict_get state_root ''length'')) JNull
            in (case top_len of
                  JInt n \<Rightarrow> if n > 0 then top_len else total_leds
                | JBool b \<Rightarrow> if b then top_len else total_leds
                | _ \<Rightarrow> total_leds)))"

text \<open>
  The argument is what \<^verbatim>\<open>esp32_client.get_device_state\<close> returned (None for an
  unreachable device). \<^verbatim>\<open>device_state.get\<close> on a response that is not a JSON object
  raises AttributeError.
\<close>

definition detect_total_leds :: "json option \<Rightarrow> py_error + json" where
  "detect_total_leds resp =
     (case por (case resp of None \<Rightarrow> JNull | Some v \<Rightarrow> v) (JDict []) of
        JDict device_state \<Rightarrow>
          (let state_root = (case dict_get device_state ''state'' of
                               JDict r \<Rightarrow> r
                             | _ \<Rightarrow> device_state);
               info = por (por (dict_get device_state ''info'') (dict_get state_root ''info'')) (JDict [])
           in try_bind (count_from_seg state_root (count_from_info info)) (\<lambda>total_leds.
                Inr (count_from_top state_root total_leds)))
      | _ \<Rightarrow> Inl AttributeError)"

subsection \<open>Auto-generated mapping\<close>

text \<open>
  \<^verbatim>\<open>led_count = total_leds if total_leds and total_leds > 0 else 60\<close>. Comparing a
  non-empty string, list or dict with 0 raises TypeError; \<^verbatim>\<open>True\<close> counts as 1.
\<close>

fun led_count_of :: "json \<Rightarrow> py_error + int" where
  "led_count_of JNull = Inr 60"
| "led_count_of (JBool b) = Inr (if b then 1 else 60)"
| "led_count_of (JInt n) = Inr (if n \<noteq> 0 \<and> n > 0 then n else 60)"
| "led_count_of (JStr s) = (if s = [] then Inr 60 else Inl TypeError)"
| "led_count_of (JList xs) = (if xs = [] then Inr 60 else Inl TypeError)"
| "led_count_of (JDict d) = (if d = [] then Inr 60 else Inl TypeError)"

text \<open>
  The elements of \<^verbatim>\<open>seg_colors\<close> as \<^verbatim>\<open>len\<close>, indexing and \<^verbatim>\<open>enumerate\<close> see them.
  A saved list gives its elements and a string its characters; \<^verbatim>\<open>len\<close> of a number
  raises TypeError, and \<^verbatim>\<open>seg_colors[0]\<close> on a non-empty dict (its keys are strings)
  raises KeyError.
\<close>

fun seq_items :: "json \<Rightarrow> py_error + json list" where
  "seq_items (JList xs) = Inr xs"
| "seq_items (JStr s) = Inr (map (\<lambda>c. JStr [c]) s)"
| "seq_items (JDict d) = (if d = [] then Inr [] else Inl KeyError)"
| "seq_items _ = Inl TypeError"

definition seg_entry :: "json \<Rightarrow> int \<Rightarrow> int \<Rightarrow> json" where
  "seg_entry color start stop =
     JDict [(''color'', color), (''start'', JInt start), (''stop'', JInt stop)]"

text \<open>The \<^verbatim>\<open>enumerate\<close> loop: one LED per saved colour, left at \<^verbatim>\<open>idx >= led_count\<close>.\<close>

fun one_led_entries :: "int \<Rightarrow> int \<Rightarrow> json list \<Rightarrow> json list" where
  "one_led_entries led_count idx [] = []"
| "one_led_entries led_count idx (col # cols) =
     (if idx \<ge> led_count then []
      else seg_entry col idx (idx + 1) # one_led_entries led_count (idx + 1) cols)"

text \<open>
  The count the generated mapping is built for: the default rule, raised to the number of
  saved colours when \<^verbatim>\<open>seg_colors\<close> is a list that is longer.
\<close>

definition effective_led_count :: "json \<Rightarrow> json \<Rightarrow> py_error + int" where
  "effective_led_count seg_colors total_leds =
     try_bind (led_count_of total_leds) (\<lambda>led_count.
       Inr (case seg_colors of
              JList cols \<Rightarrow> if int (length cols) > led_count then int (length cols) else led_count
            | _ \<Rightarrow> led_count))"

text \<open>
  Lines 308 to 335 of \<^verbatim>\<open>set_device_power\<close> and 459 to 483 of
  \<^verbatim>\<open>apply_saved_state\<close>, which are the same statements. \<^verbatim>\<open>seg_colors\<close> is
  \<^verbatim>\<open>dev.get('device_segment_colors') or []\<close>.
\<close>

definition auto_seg_mapping :: "json \<Rightarrow> json \<Rightarrow> json \<Rightarrow> py_error + json list" where
  "auto_seg_mapping seg_colors curr_color total_leds =
     try_bind (effective_led_count seg_colors total_leds) (\<lambda>led_count.
     try_bind (seq_items seg_colors) (\<lambda>cols.
       (let color0 = (case cols of c # _ \<Rightarrow> c | _ \<Rightarrow> JNull);
            color1 = (case cols of _ # c # _ \<Rightarrow> c | _ \<Rightarrow> JNull);
            color_rest = (if truthy curr_color then curr_color else por color1 color0)
        in if \<not> truthy seg_colors \<and> truthy curr_color
           then Inr [seg_entry color_rest 0 led_count]
           else Inr (one_led_entries led_count 0 cols @
                     (if led_count > int (length cols) \<and> truthy color_rest
                      then [seg_entry color_rest (int (length cols)) led_count]
                      else [])))))"

subsection \<open>From mapping entries to the ranges that are sent\<close>

record seg_update =
  start :: int
  stop :: int
  col :: "int \<times> int \<times> int"

text \<open>
  One turn of the loop over \<^verbatim>\<open>seg_mapping\<close>. \<open>Inr None\<close> is an entry that is skipped
  (a missing or unreadable stop, a colour that does not parse, a start that is missing, of
  the wrong type or unreadable, or \<^verbatim>\<open>start >= stop\<close>). An entry that is not a dict has
  no \<^verbatim>\<open>get\<close>: that AttributeError is not caught inside the loop.
\<close>

fun convert_entry :: "json \<Rightarrow> py_error + seg_update option" where
  "convert_entry (JDict entry) =
     (let start = dict_get entry ''start'';
          stop_exclusive = dict_get entry ''stop'';
          color_hex = dict_get entry ''color'';
          rgb = hex_to_rgb color_hex
      in if stop_exclusive = JNull then Inr None
         else (case py_int stop_exclusive of
                 Inl e \<Rightarrow> Inr None
               | Inr stop_to_send \<Rightarrow>
                   (case rgb of
                      None \<Rightarrow> Inr None
                    | Some c \<Rightarrow>
                        if start \<noteq> JNull \<and> (is_int start \<or> is_str start)
                        then (case py_int start of
                                Inl e \<Rightarrow> Inr None
                              | Inr start_int \<Rightarrow>
                                  if start_int < stop_to_send
                                  then Inr (Some \<lparr>start = start_int, stop = stop_to_send, col = c\<rparr>)
                                  else Inr None)
                        else Inr None)))"
| "convert_entry _ = Inl AttributeError"

fun convert_mapping :: "json list \<Rightarrow> py_error + seg_update list" where
  "convert_mapping [] = Inr []"
| "convert_mapping (entry # rest) =
     try_bind (convert_entry entry) (\<lambda>r.
     try_bind (convert_mapping rest) (\<lambda>rs.
       Inr (case r of None \<Rightarrow> rs | Some u \<Rightarrow> u # rs)))"

text \<open>
  \<^verbatim>\<open>seg_updates\<close> as both paths compute it from the device record and the detected
  count: a saved \<^verbatim>\<open>device_segment_mapping\<close> that is truthy is used as it is (a
  value that is not a list yields no ranges), otherwise the mapping is generated.
\<close>

definition seg_mapping_of :: "(string \<times> json) list \<Rightarrow> json \<Rightarrow> py_error + json" where
  "seg_mapping_of dev total_leds =
     (let seg_colors = por (dict_get dev ''device_segment_colors'') (JList []);
          curr_color = dict_get dev ''device_current_color'';
          seg_mapping = dict_get dev ''device_segment_mapping''
      in if \<not> truthy seg_mapping
         then try_bind (auto_seg_mapping seg_colors curr_color total_leds) (\<lambda>m. Inr (JList m))
         else Inr seg_mapping)"

definition seg_updates_of :: "(string \<times> json) list \<Rightarrow> json \<Rightarrow> py_error + seg_update list" where
  "seg_updates_of dev total_leds =
     try_bind (seg_mapping_of dev total_leds) (\<lambda>seg_mapping.
       (case seg_mapping of
          JList entries \<Rightarrow> convert_mapping entries
        | _ \<Rightarrow> Inr []))"

text \<open>
  \<^verbatim>\<open>bri = dev.get('device_brightness') if isinstance(..., int) else 128\<close>, then
  \<^verbatim>\<open>int(bri)\<close>.
\<close>

definition brightness_of :: "(string \<times> json) list \<Rightarrow> int" where
  "brightness_of dev =
     (case dict_get dev ''device_brightness'' of
        JInt n \<Rightarrow> n
      | JBool b \<Rightarrow> (if b then 1 else 0)
      | _ \<Rightarrow> 128)"

record payload =
  on :: bool
  bri :: int
  seg :: "seg_update list"
  psave :: int

definition state_data :: "(string \<times> json) list \<Rightarrow> seg_update list \<Rightarrow> payload" where
  "state_data dev seg_updates =
     \<lparr>on = True, bri = brightness_of dev, seg = seg_updates, psave = 1\<rparr>"

section \<open>The transport client\<close>

text \<open>
  \<^verbatim>\<open>ESP32Client\<close> reaches a device with GET and POST on its state endpoint. What the
  device answers is not the program's to decide, so it is a parameter: for an address
  (and a request body) either the value \<^verbatim>\<open>_make_request\<close> returns, None after
  exhausted retries or an HTTP error, or an exception (the client itself raises none, a
  stand-in for it in a test may). Every request is recorded in the order it is made.
\<close>

record transport =
  get_state :: "json \<Rightarrow> py_error + json option"
  post_state :: "json \<Rightarrow> json \<Rightarrow> py_error + json option"

datatype call = Get json | Post json json

definition client_set_power_body :: "bool \<Rightarrow> json" where
  "client_set_power_body on_flag = JDict [(''on'', JBool on_flag)]"



text \<open>The state update as the dict that is posted.\<close>

definition seg_update_json :: "seg_update \<Rightarrow> json" where
  "seg_update_json u =
     (case col u of (r, g, b) \<Rightarrow>
        JDict [(''start'', JInt (start u)), (''stop'', JInt (stop u)),
               (''col'', JList [JList [JInt r, JInt g, JInt b]])])"

definition payload_json :: "payload \<Rightarrow> json" where
  "payload_json p =
     JDict [(''on'', JBool (on p)), (''bri'', JInt (bri p)),
            (''seg'', JList (map seg_update_json (seg p))), (''psave'', JInt (psave p))]"

section \<open>The device manager\<close>

subsection \<open>The flattened index and \<^verbatim>\<open>load_devices\<close>\<close>

text \<open>
  \<^verbatim>\<open>self.devices_data\<close> maps a device identifier to the device's dict. As dict keys
  \<^verbatim>\<open>True\<close> and \<^verbatim>\<open>1\<close> are one key, so a bool is kept as its integer.
\<close>

datatype dkey = KNone | KInt int | KStr string

type_synonym device = "(string \<times> json) list"

type_synonym index = "(dkey \<times> device) list"

text \<open>
  An identifier as a key: \<^verbatim>\<open>int(device_id)\<close> where that works, the value itself
  otherwise. A list or a dict cannot be a key (TypeError: unhashable).
\<close>

fun key_of :: "json \<Rightarrow> py_error + dkey" where
  "key_of (JStr s) = Inr (case py_int_str 10 s of None \<Rightarrow> KStr s | Some n \<Rightarrow> KInt n)"
| "key_of (JInt n) = Inr (KInt n)"
| "key_of (JBool b) = Inr (KInt (if b then 1 else 0))"
| "key_of JNull = Inr KNone"
| "key_of _ = Inl TypeError"

text \<open>What \<^verbatim>\<open>load_json_file\<close> does: None for a missing file, an exception when the
  file cannot be read or parsed, the parsed document otherwise.\<close>

datatype file_read = Missing | Unreadable | Parsed json

text \<open>\<^verbatim>\<open>d.get(k, default)\<close>.\<close>

definition dict_get_default :: "(string \<times> json) list \<Rightarrow> string \<Rightarrow> json \<Rightarrow> json" where
  "dict_get_default d k dflt = (case map_of d k of None \<Rightarrow> dflt | Some v \<Rightarrow> v)"

text \<open>\<^verbatim>\<open>for x in v\<close>: a list gives its elements, a string its characters, a dict its
  keys; anything else is not iterable.\<close>

fun py_iter :: "json \<Rightarrow> py_error + json list" where
  "py_iter (JList xs) = Inr xs"
| "py_iter (JStr s) = Inr (map (\<lambda>c. JStr [c]) s)"
| "py_iter (JDict d) = Inr (map (\<lambda>kv. JStr (fst kv)) d)"
| "py_iter _ = Inl TypeError"

text \<open>
  The four nested loops of \<^verbatim>\<open>load_devices\<close>, innermost first. \<^verbatim>\<open>x.get\<close> on a zone,
  group, location or device that is not a dict raises AttributeError.
\<close>

fun flatten_devices :: "json \<Rightarrow> json \<Rightarrow> json \<Rightarrow> json list \<Rightarrow> index \<Rightarrow> py_error + index" where
  "flatten_devices zone_id group_id location_id [] flat_devices = Inr flat_devices"
| "flatten_devices zone_id group_id location_id (dv # rest) flat_devices =
     (case dv of
        JDict d \<Rightarrow>
          try_bind (key_of (dict_get d ''device_id'')) (\<lambda>device_id.
            flatten_devices zone_id group_id location_id rest
              (AList.update device_id
                 (AList.update ''location_id'' location_id
                   (AList.update ''group_id'' group_id
                     (AList.update ''zone_id'' zone_id d)))
                 flat_devices))
      | _ \<Rightarrow> Inl AttributeError)"

fun flatten_locations :: "json \<Rightarrow> json \<Rightarrow> json list \<Rightarrow> index \<Rightarrow> py_error + index" where
  "flatten_locations zone_id group_id [] flat_devices = Inr flat_devices"
| "flatten_locations zone_id group_id (loc # rest) flat_devices =
     (case loc of
        JDict l \<Rightarrow>
          try_bind (py_iter (por (dict_get_default l ''device'' (JList [])) (JList []))) (\<lambda>devs.
          try_bind (flatten_devices zone_id group_id (dict_get l ''location_id'') devs flat_devices)
            (flatten_locations zone_id group_id rest))
      | _ \<Rightarrow> Inl AttributeError)"

fun flatten_groups :: "json \<Rightarrow> json list \<Rightarrow> index \<Rightarrow> py_error + index" where
  "flatten_groups zone_id [] flat_devices = Inr flat_devices"
| "flatten_groups zone_id (grp # rest) flat_devices =
     (case grp of
        JDict g \<Rightarrow>
          try_bind (py_iter (dict_get_default g ''location'' (JList []))) (\<lambda>locs.
          try_bind (flatten_locations zone_id (dict_get g ''group_id'') locs flat_devices)
            (flatten_groups zone_id rest))
      | _ \<Rightarrow> Inl AttributeError)"

fun flatten_zones :: "json list \<Rightarrow> index \<Rightarrow> py_error + index" where
  "flatten_zones [] flat_devices = Inr flat_devices"
| "flatten_zones (zn # rest) flat_devices =
     (case zn of
        JDict z \<Rightarrow>
          try_bind (py_iter (dict_get_default z ''groups'' (JList []))) (\<lambda>grps.
          try_bind (flatten_groups (dict_get z ''zone_id'') grps flat_devices)
            (flatten_zones rest))
      | _ \<Rightarrow> Inl AttributeError)"

text \<open>The body of the \<^verbatim>\<open>try\<close> block, with its exceptions.\<close>

definition load_devices_try :: "file_read \<Rightarrow> py_error + (bool \<times> index)" where
  "load_devices_try file =
     (case file of
        Missing \<Rightarrow> Inr (False, [])
      | Unreadable \<Rightarrow> Inl OSError
      | Parsed raw_data \<Rightarrow>
          if \<not> truthy raw_data then Inr (False, [])
          else try_bind (py_contains ''zones'' raw_data) (\<lambda>has_zones.
                 if \<not> has_zones then Inr (False, [])
                 else (case raw_data of
                         JDict d \<Rightarrow>
                           try_bind (py_iter (dict_get_default d ''zones'' (JList []))) (\<lambda>zones.
                           try_bind (flatten_zones zones []) (\<lambda>flat_devices.
                             Inr (True, flat_devices)))
                       | _ \<Rightarrow> Inl AttributeError)))"

text \<open>
  \<^verbatim>\<open>load_devices\<close>: the second argument is \<^verbatim>\<open>self.devices_data\<close> before the call,
  the result is the returned flag and \<^verbatim>\<open>self.devices_data\<close> after it.
\<close>

definition load_devices :: "file_read \<Rightarrow> index \<Rightarrow> bool \<times> index" where
  "load_devices file devices_data =
     (case load_devices_try file of
        Inl e \<Rightarrow> (False, [])
      | Inr r \<Rightarrow> r)"

text \<open>\<^verbatim>\<open>get_device_ip\<close>: None unless the identifier is a key of the index.\<close>

definition get_device_ip :: "index \<Rightarrow> json \<Rightarrow> py_error + json" where
  "get_device_ip devices_data device_id =
     try_bind (key_of device_id) (\<lambda>device_id_int.
       (case map_of devices_data device_id_int of
          None \<Rightarrow> Inr JNull
        | Some dev \<Rightarrow> if dev \<noteq> [] then Inr (dict_get dev ''device_ip'') else Inr JNull))"

subsection \<open>Operations on one device\<close>

text \<open>
  An operation's outcome: what it returns (or the exception that leaves it),
  \<^verbatim>\<open>self.devices_data\<close> afterwards, and the requests it made, in order.
\<close>

record op_result =
  returned :: "py_error + json option"
  devices_after :: index
  calls :: "call list"

definition opt_truthy :: "json option \<Rightarrow> bool" where
  "opt_truthy r = (case r of None \<Rightarrow> False | Some v \<Rightarrow> truthy v)"

definition mark_online :: "int \<Rightarrow> device \<Rightarrow> device" where
  "mark_online now dev =
     AList.update ''status'' (JStr ''online'') (AList.update ''last_seen'' (JInt now) dev)"

definition mark_offline :: "device \<Rightarrow> device" where
  "mark_offline dev = AList.update ''status'' (JStr ''offline'') dev"

text \<open>
  The status bookkeeping after a state read: \<^verbatim>\<open>if state:\<close> tests truth, and the
  record is touched only \<^verbatim>\<open>if device_id in self.devices_data\<close>.
\<close>

definition record_contact :: "json option \<Rightarrow> int \<Rightarrow> dkey \<Rightarrow> index \<Rightarrow> index" where
  "record_contact state now device_id devices_data =
     (if opt_truthy state then AList.map_entry device_id (mark_online now) devices_data
      else AList.map_entry device_id mark_offline devices_data)"

definition get_device_state :: "index \<Rightarrow> transport \<Rightarrow> int \<Rightarrow> json \<Rightarrow> op_result" where
  "get_device_state devices_data t now device_id =
     (case key_of device_id of
        Inl e \<Rightarrow> \<lparr>returned = Inl e, devices_after = devices_data, calls = []\<rparr>
      | Inr device_id_int \<Rightarrow>
          (case get_device_ip devices_data device_id of
             Inl e \<Rightarrow> \<lparr>returned = Inl e, devices_after = devices_data, calls = []\<rparr>
           | Inr ip_address \<Rightarrow>
               if \<not> truthy ip_address
               then \<lparr>returned = Inr None, devices_after = devices_data, calls = []\<rparr>
               else (case get_state t ip_address of
                       Inl e \<Rightarrow> \<lparr>returned = Inl e, devices_after = devices_data,
                                 calls = [Get ip_address]\<rparr>
                     | Inr state \<Rightarrow>
                         \<lparr>returned = Inr state,
                          devices_after = record_contact state now device_id_int devices_data,
                          calls = [Get ip_address]\<rparr>)))"





text \<open>\<^verbatim>\<open>dev = self.devices_data.get(device_id_int) or {}\<close>.\<close>

definition device_record :: "index \<Rightarrow> json \<Rightarrow> py_error + device" where
  "device_record devices_data device_id =
     try_bind (key_of device_id) (\<lambda>device_id_int.
       Inr (case map_of devices_data device_id_int of None \<Rightarrow> [] | Some d \<Rightarrow> d))"

subsection \<open>Reconciliation after power-on\<close>

text \<open>
  The ranges \<^verbatim>\<open>set_device_power\<close> arrives at, given the outcome of its state fetch. The
  fetch, the count discovery and the mapping sit in one \<^verbatim>\<open>try\<close> block (lines 280 to
  381): an exception anywhere in it ends the reconciliation.
\<close>

definition power_on_seg_updates :: "device \<Rightarrow> py_error + json option \<Rightarrow> py_error + seg_update list" where
  "power_on_seg_updates dev fetched =
     try_bind fetched (\<lambda>resp.
     try_bind (detect_total_leds resp) (\<lambda>total_leds.
       seg_updates_of dev total_leds))"

definition power_on_reconcile :: "index \<Rightarrow> transport \<Rightarrow> json \<Rightarrow> json \<Rightarrow> call list" where
  "power_on_reconcile devices_data t device_id ip_address =
     (case device_record devices_data device_id of
        Inl e \<Rightarrow> []
      | Inr dev \<Rightarrow>
          Get ip_address #
          (case power_on_seg_updates dev (get_state t ip_address) of
             Inl e \<Rightarrow> []
           | Inr seg_updates \<Rightarrow>
               if seg_updates \<noteq> []
               then [Post ip_address (payload_json (state_data dev seg_updates))]
               else []))"

definition set_device_power :: "index \<Rightarrow> transport \<Rightarrow> json \<Rightarrow> bool \<Rightarrow> op_result" where
  "set_device_power devices_data t device_id on_flag =
     (case get_device_ip devices_data device_id of
        Inl e \<Rightarrow> \<lparr>returned = Inl e, devices_after = devices_data, calls = []\<rparr>
      | Inr ip_address \<Rightarrow>
          if \<not> truthy ip_address
          then \<lparr>returned = Inr None, devices_after = devices_data, calls = []\<rparr>
          else (case post_state t ip_address (client_set_power_body on_flag) of
                  Inl e \<Rightarrow> \<lparr>returned = Inl e, devices_after = devices_data,
                            calls = [Post ip_address (client_set_power_body on_flag)]\<rparr>
                | Inr result \<Rightarrow>
                    \<lparr>returned = Inr result, devices_after = devices_data,
                     calls = Post ip_address (client_set_power_body on_flag) #
                       (if on_flag \<and> result \<noteq> None
                        then power_on_reconcile devices_data t device_id ip_address
                        else [])\<rparr>))"

subsection \<open>\<^verbatim>\<open>apply_saved_state\<close>\<close>




subsection \<open>Polling every device\<close>





section \<open>The power route of the API layer\<close>

text \<open>
  \<^verbatim>\<open>POST /api/devices/<device_id>/power\<close>: the status code with what distinguishes the
  answers of one code (the message, or the address and result of a success).
\<close>

datatype api_response =
    Success json json
  | BadRequest string
  | NotFound string
  | ServerError py_error

definition api_set_device_power :: "index \<Rightarrow> transport \<Rightarrow> json \<Rightarrow> json \<Rightarrow> api_response \<times> call list" where
  "api_set_device_power devices_data t device_id data =
     (if \<not> truthy data then (BadRequest ''Power state (on) is required'', [])
      else (case py_contains ''on'' data of
              Inl e \<Rightarrow> (ServerError e, [])
            | Inr has_on \<Rightarrow>
                if \<not> has_on then (BadRequest ''Power state (on) is required'', [])
                else (case data of
                        JDict d \<Rightarrow>
                          (case get_device_ip devices_data device_id of
                             Inl e \<Rightarrow> (ServerError e, [])
                           | Inr ip \<Rightarrow>
                               if \<not> truthy ip
                               then (NotFound ''Device not found or unreachable'', [])
                               else (let r = set_device_power devices_data t device_id
                                               (truthy (dict_get d ''on''))
                                     in (case returned r of
                                           Inl e \<Rightarrow> (ServerError e, calls r)
                                         | Inr None \<Rightarrow>
                                             (NotFound ''Device not found or unreachable'', calls r)
                                         | Inr (Some result) \<Rightarrow> (Success ip result, calls r))))
                      | _ \<Rightarrow> (ServerError TypeError, []))))"

section \<open>Writing the inventory document\<close>

text \<open>
  The file system is a map from paths to contents, a write a list of operations carried
  out in order. \<^verbatim>\<open>open(path, 'w')\<close> leaves the file empty, \<^verbatim>\<open>os.replace\<close> moves a
  file over another in one step, and \<^verbatim>\<open>os.open\<close> with \<^verbatim>\<open>O_CREAT | O_EXCL\<close> creates the
  lock file. The serialised document is a parameter (\<^verbatim>\<open>json.dump\<close> is not modelled).
\<close>

type_synonym fs = "string \<Rightarrow> string option"

datatype fs_op =
    CreateExcl string
  | OpenTrunc string
  | Append string string
  | Fsync string
  | Replace string string
  | Remove string

fun do_op :: "fs_op \<Rightarrow> fs \<Rightarrow> fs" where
  "do_op (CreateExcl p) files = files(p \<mapsto> [])"
| "do_op (OpenTrunc p) files = files(p \<mapsto> [])"
| "do_op (Append p txt) files = files(p \<mapsto> (case files p of None \<Rightarrow> txt | Some old \<Rightarrow> old @ txt))"
| "do_op (Fsync p) files = files"
| "do_op (Replace src dst) files = (files(dst := files src))(src := None)"
| "do_op (Remove p) files = files(p := None)"

fun run_ops :: "fs_op list \<Rightarrow> fs \<Rightarrow> fs" where
  "run_ops [] files = files"
| "run_ops (x # xs) files = run_ops xs (do_op x files)"

text \<open>
  \<^verbatim>\<open>_acquire_lock\<close>: try to create the lock file; while it exists, give up once
  \<^verbatim>\<open>timeout\<close> has passed, else sleep 0.05 s and try again. The first argument is the
  number of attempts at which another writer still holds the file; time is counted in
  milliseconds and advances by the sleep alone.
\<close>

fun acquire_lock :: "nat \<Rightarrow> nat \<Rightarrow> nat \<Rightarrow> bool" where
  "acquire_lock 0 timeout elapsed = True"
| "acquire_lock (Suc held) timeout elapsed =
     (if elapsed \<ge> timeout then False else acquire_lock held timeout (elapsed + 50))"

definition lock_path :: "string \<Rightarrow> string \<Rightarrow> string" where
  "lock_path dirpath basename = dirpath @ ''/.'' @ basename @ ''.lock''"

definition tmp_path :: "string \<Rightarrow> string \<Rightarrow> string" where
  "tmp_path dirpath basename = dirpath @ ''/.'' @ basename @ ''.tmp''"

definition target_path :: "string \<Rightarrow> string \<Rightarrow> string" where
  "target_path dirpath basename = dirpath @ ''/'' @ basename"

text \<open>
  \<^verbatim>\<open>_atomic_write_json\<close> with the default timeout of 5 seconds, used by
  \<^verbatim>\<open>save_network_devices\<close>: the operations it carries out once it holds the lock, and
  \<open>None\<close> for the RuntimeError when it does not get it.
\<close>

definition atomic_write_json :: "nat \<Rightarrow> string \<Rightarrow> string \<Rightarrow> string \<Rightarrow> fs_op list option" where
  "atomic_write_json held dirpath basename txt =
     (if \<not> acquire_lock held 5000 0 then None
      else Some [CreateExcl (lock_path dirpath basename),
                 OpenTrunc (tmp_path dirpath basename),
                 Append (tmp_path dirpath basename) txt,
                 Fsync (tmp_path dirpath basename),
                 Replace (tmp_path dirpath basename) (target_path dirpath basename),
                 Remove (lock_path dirpath basename)])"

text \<open>
  \<^verbatim>\<open>save_json_file\<close>, which \<^verbatim>\<open>DeviceManager.save_devices\<close> calls on the same
  inventory file: it opens the target for writing and dumps into it.
\<close>

definition save_json_file :: "string \<Rightarrow> string \<Rightarrow> fs_op list" where
  "save_json_file path txt = [OpenTrunc path, Append path txt]"

text \<open>
  The PUT and POST branch of \<^verbatim>\<open>api_hierarchy\<close> (app/\_\_init\_\_.py, lines 397 and
  398) persists the merged document to the same file in the same way.
\<close>

definition api_hierarchy_write :: "string \<Rightarrow> string \<Rightarrow> fs_op list" where
  "api_hierarchy_write data_path txt = [OpenTrunc data_path, Append data_path txt]"

section \<open>Fixtures and notions the properties are stated with\<close>

text \<open>
  The inventory file and the transport stand-ins of
  tests/test\_device\_manager\_segments.py: one device, identifier 1, with two saved
  segment colours and a current colour; a device that reports 300 LEDs at top level and
  acknowledges every POST.
\<close>

definition fixture_doc :: json where
  "fixture_doc =
     JDict [(''zones'', JList [JDict [(''zone_id'', JInt 1), (''groups'', JList [JDict
       [(''group_id'', JInt 1), (''location'', JList [JDict
         [(''location_id'', JStr ''1''), (''device'', JList [JDict
           [(''device_id'', JInt 1),
            (''device_name'', JStr ''LED Strip1''),
            (''device_ip'', JStr ''10.0.0.140''),
            (''device_mac'', JStr ''20:6E:F1:6D:F4:78''),
            (''device_current_color'', JStr ''#afab2c''),
            (''device_segment_colors'', JList [JStr ''#3dd1db'', JStr ''#a52222''])]])]])]])]])]"

definition fixture_devices :: index where
  "fixture_devices = snd (load_devices (Parsed fixture_doc) [])"

definition fixture_transport :: transport where
  "fixture_transport =
     \<lparr>get_state = (\<lambda>ip. Inr (Some (JDict [(''seg'', JList []), (''leds'', JInt 300)]))),
      post_state = (\<lambda>ip body. Inr (Some (JDict [(''success'', JBool True)])))\<rparr>"

definition fixture_device :: device where
  "fixture_device = (case device_record fixture_devices (JInt 1) of Inl e \<Rightarrow> [] | Inr d \<Rightarrow> d)"

text \<open>A device that answers nothing: every request ends in None.\<close>

definition silent_transport :: transport where
  "silent_transport = \<lparr>get_state = (\<lambda>ip. Inr None), post_state = (\<lambda>ip body. Inr None)\<rparr>"



text \<open>How many of the ranges hold LED index \<open>i\<close>.\<close>

definition covering :: "seg_update list \<Rightarrow> int \<Rightarrow> nat" where
  "covering us i = length (filter (\<lambda>u. start u \<le> i \<and> i < stop u) us)"



section \<open>Basic facts\<close>

lemma try_bind_simps [simp]:
  "try_bind (Inl e) f = Inl e"
  "try_bind (Inr v) f = f v"
  by (simp_all add: try_bind_def)

lemma hex_to_rgb_truthy: "hex_to_rgb c \<noteq> None \<Longrightarrow> truthy c"
  by (cases c) (auto split: if_splits)

text \<open>A generated entry converts by itself: its colour and its bounds decide.\<close>

lemma convert_entry_seg_entry:
  "convert_entry (seg_entry c s e) =
     Inr (case hex_to_rgb c of
            None \<Rightarrow> None
          | Some rgb \<Rightarrow> if s < e then Some \<lparr>start = s, stop = e, col = rgb\<rparr> else None)"
  by (simp add: seg_entry_def dict_get_def split: option.splits)

lemma convert_mapping_append:
  "convert_mapping (xs @ ys) =
     try_bind (convert_mapping xs) (\<lambda>a. try_bind (convert_mapping ys) (\<lambda>b. Inr (a @ b)))"
proof (induction xs)
  case Nil
  show ?case by (cases "convert_mapping ys") simp_all
next
  case (Cons x xs)
  show ?case
  proof (cases "convert_entry x")
    case (Inl e)
    then show ?thesis by simp
  next
    case (Inr r)
    then show ?thesis
      using Cons.IH
      by (cases "convert_mapping xs"; cases "convert_mapping ys"; cases r) simp_all
  qed
qed

lemma covering_append: "covering (a @ b) i = covering a i + covering b i"
  by (simp add: covering_def)

lemma covering_Nil: "covering [] i = 0"
  by (simp add: covering_def)

lemma covering_Cons:
  "covering (u # us) i = (if start u \<le> i \<and> i < stop u then 1 else 0) + covering us i"
  by (simp add: covering_def)

lemma fixture_devices_eq:
  "fixture_devices =
     [(KInt 1,
       [(''device_id'', JInt 1), (''device_name'', JStr ''LED Strip1''),
        (''device_ip'', JStr ''10.0.0.140''),
        (''device_mac'', JStr ''20:6E:F1:6D:F4:78''),
        (''device_current_color'', JStr ''#afab2c''),
        (''device_segment_colors'', JList [JStr ''#3dd1db'', JStr ''#a52222'']),
        (''zone_id'', JInt 1), (''group_id'', JInt 1), (''location_id'', JStr ''1'')])]"
  by code_simp


section \<open>The fixture of the repository's test (C1)\<close>



section \<open>Generated ranges tile the strip (C2)\<close>

lemma one_led_tiles:
  assumes "\<forall>c \<in> set cols. hex_to_rgb c \<noteq> None" and "k + int (length cols) \<le> n"
  shows "\<exists>us. convert_mapping (one_led_entries n k cols) = Inr us
           \<and> (\<forall>i. covering us i = (if k \<le> i \<and> i < k + int (length cols) then 1 else 0))
           \<and> (\<forall>u \<in> set us. start u < stop u)"
  using assms
proof (induction cols arbitrary: k)
  case Nil
  then show ?case by (simp add: covering_Nil)
next
  case (Cons c cols)
  from Cons.prems obtain rgb where rgb: "hex_to_rgb c = Some rgb" by auto
  from Cons.prems have lt: "k < n" by simp
  from Cons.prems have prems':
    "\<forall>c \<in> set cols. hex_to_rgb c \<noteq> None" "(k + 1) + int (length cols) \<le> n"
    by simp_all
  from Cons.IH [OF prems'] obtain us where
    us: "convert_mapping (one_led_entries n (k + 1) cols) = Inr us"
    and cov: "\<forall>i. covering us i = (if k + 1 \<le> i \<and> i < k + 1 + int (length cols) then 1 else 0)"
    and ne: "\<forall>u \<in> set us. start u < stop u"
    by blast
  have "convert_mapping (one_led_entries n k (c # cols)) =
      Inr (\<lparr>start = k, stop = k + 1, col = rgb\<rparr> # us)"
    using lt rgb us by (simp add: convert_entry_seg_entry)
  moreover have "\<forall>i. covering (\<lparr>start = k, stop = k + 1, col = rgb\<rparr> # us) i
      = (if k \<le> i \<and> i < k + int (length (c # cols)) then 1 else 0)"
    using cov by (auto simp add: covering_Cons)
  moreover have "\<forall>u \<in> set (\<lparr>start = k, stop = k + 1, col = rgb\<rparr> # us). start u < stop u"
    using ne by simp
  ultimately show ?case by blast
qed

lemma led_count_of_positive: "led_count_of total_leds = Inr n \<Longrightarrow> 0 < n"
  by (cases total_leds) (auto split: if_splits)

lemma effective_led_count_bounds:
  assumes "effective_led_count (JList cols) total_leds = Inr n"
  shows "int (length cols) \<le> n \<and> 0 < n"
proof (cases "led_count_of total_leds")
  case (Inl e)
  with assms show ?thesis by (simp add: effective_led_count_def)
next
  case (Inr l)
  then have "0 < l" by (rule led_count_of_positive)
  with assms Inr show ?thesis by (auto simp add: effective_led_count_def split: if_splits)
qed

text \<open>
  C2. Take a device record with no saved mapping, a non-empty list of saved segment
  colours that all parse, and a current colour that parses. Every count \<open>m\<close> of at least
  the number of saved colours is the effective LED count when the device reports \<open>m\<close>.
  Whenever \<open>n\<close> is the effective LED count, it is at least the number of saved colours,
  and the ranges both reconciliation paths compute tile [0, n): every index from 0 to
  n - 1 lies in exactly one range, every other index in none, and every range has
  start < stop.
\<close>

theorem generated_ranges_tile_strip:
  assumes colors: "dict_get dev ''device_segment_colors'' = JList cols"
    and current: "dict_get dev ''device_current_color'' = curr_color"
    and no_mapping: "\<not> truthy (dict_get dev ''device_segment_mapping'')"
    and nonempty: "cols \<noteq> []"
    and valid: "\<forall>c \<in> set cols. hex_to_rgb c \<noteq> None"
    and curr_valid: "hex_to_rgb curr_color \<noteq> None"
    and eff: "effective_led_count (JList cols) total_leds = Inr n"
  shows "(int (length cols) \<le> m \<longrightarrow> effective_led_count (JList cols) (JInt m) = Inr m) \<and>
         int (length cols) \<le> n \<and>
         (\<exists>us. seg_updates_of dev total_leds = Inr us
            \<and> (\<forall>i. covering us i = (if 0 \<le> i \<and> i < n then 1 else 0))
            \<and> (\<forall>u \<in> set us. start u < stop u))"
proof -
  have every: "effective_led_count (JList cols) (JInt m) = Inr m" if "int (length cols) \<le> m"
  proof -
    from nonempty that have "0 < m" by (cases cols) auto
    with that show ?thesis by (simp add: effective_led_count_def)
  qed
  from eff have enough: "int (length cols) \<le> n" and npos: "0 < n"
    using effective_led_count_bounds by blast+
  from curr_valid obtain rgb where rgb: "hex_to_rgb curr_color = Some rgb" by auto
  have tr: "truthy curr_color" using curr_valid by (rule hex_to_rgb_truthy)
  obtain us where
    us: "convert_mapping (one_led_entries n 0 cols) = Inr us"
    and cov: "\<forall>i. covering us i = (if 0 \<le> i \<and> i < 0 + int (length cols) then 1 else 0)"
    and ne: "\<forall>u \<in> set us. start u < stop u"
    using one_led_tiles [of cols 0 n] valid enough by auto
  define tail where "tail = (if n > int (length cols)
      then [\<lparr>start = int (length cols), stop = n, col = rgb\<rparr>] else [])"
  have mapping: "seg_mapping_of dev total_leds =
      Inr (JList (one_led_entries n 0 cols @
        (if n > int (length cols) then [seg_entry curr_color (int (length cols)) n] else [])))"
    using colors current no_mapping nonempty tr eff
    by (simp add: seg_mapping_of_def auto_seg_mapping_def por_def)
  have conv_tail:
    "convert_mapping (if n > int (length cols)
        then [seg_entry curr_color (int (length cols)) n] else []) = Inr tail"
    using rgb by (simp add: tail_def convert_entry_seg_entry)
  have res: "seg_updates_of dev total_leds = Inr (us @ tail)"
    using mapping us conv_tail by (simp add: seg_updates_of_def convert_mapping_append)
  have cov_tail: "\<forall>i. covering tail i = (if int (length cols) \<le> i \<and> i < n then 1 else 0)"
    by (simp add: tail_def covering_Cons covering_Nil)
  have "\<forall>i. covering (us @ tail) i = (if 0 \<le> i \<and> i < n then 1 else 0)"
    using cov cov_tail enough by (auto simp add: covering_append)
  moreover have "\<forall>u \<in> set (us @ tail). start u < stop u"
    using ne by (auto simp add: tail_def split: if_splits)
  ultimately show ?thesis using every enough res by blast
qed

theorem generated_ranges_tile_strip_witness:
  "dict_get fixture_device ''device_segment_colors'' = JList [JStr ''#3dd1db'', JStr ''#a52222''] \<and>
   hex_to_rgb (JStr ''#afab2c'') \<noteq> None \<and>
   effective_led_count (JList [JStr ''#3dd1db'', JStr ''#a52222'']) (JInt 300) = Inr 300 \<and>
   effective_led_count (JList [JStr ''#3dd1db'', JStr ''#a52222'']) (JInt 2) = Inr 2 \<and>
   (\<exists>us. seg_updates_of fixture_device (JInt 300) = Inr us
      \<and> (\<forall>i. covering us i = (if 0 \<le> i \<and> i < 300 then 1 else 0))
      \<and> (\<forall>u \<in> set us. start u < stop u))"
proof -
  have h1: "dict_get fixture_device ''device_segment_colors'' =
      JList [JStr ''#3dd1db'', JStr ''#a52222'']"
    by code_simp
  have h2: "dict_get fixture_device ''device_current_color'' = JStr ''#afab2c''"
    by code_simp
  have h3: "\<not> truthy (dict_get fixture_device ''device_segment_mapping'')"
    by code_simp
  have h4: "[JStr ''#3dd1db'', JStr ''#a52222''] \<noteq> []" by simp
  have h5: "\<forall>c \<in> set [JStr ''#3dd1db'', JStr ''#a52222'']. hex_to_rgb c \<noteq> None"
    by code_simp
  have h6: "hex_to_rgb (JStr ''#afab2c'') \<noteq> None" by code_simp
  have h7: "effective_led_count (JList [JStr ''#3dd1db'', JStr ''#a52222'']) (JInt 300) = Inr 300"
    by code_simp
  have h8: "int (length [JStr ''#3dd1db'', JStr ''#a52222'']) \<le> 2" by simp
  show ?thesis
    using generated_ranges_tile_strip [OF h1 h2 h3 h4 h5 h6 h7, of 2] h1 h6 h7 h8 by blast
qed

section \<open>The effective LED count (C3)\<close>




section \<open>Colours that do not parse (C4)\<close>

lemma try_bind_Inr_id: "try_bind m Inr = m"
  by (cases m) simp_all











section \<open>Power-on survives a failed reconciliation (C5)\<close>




section \<open>Writes that bypass the lock and the rename (C6)\<close>

text \<open>
  The guarded path, for comparison: without the lock nothing is written, and with it the
  target holds the old or the new document after every prefix of the operations.
\<close>

lemma atomic_write_json_timeout:
  "\<not> acquire_lock held 5000 0 \<Longrightarrow> atomic_write_json held dirpath basename txt = None"
  by (simp add: atomic_write_json_def)

lemma atomic_write_json_never_torn:
  assumes "atomic_write_json held ''data'' ''network_devices.json'' txt = Some ops"
  shows "run_ops (take n ops) files (target_path ''data'' ''network_devices.json'') =
           files (target_path ''data'' ''network_devices.json'') \<or>
         run_ops (take n ops) files (target_path ''data'' ''network_devices.json'') = Some txt"
proof -
  have ops: "ops = [CreateExcl (lock_path ''data'' ''network_devices.json''),
                 OpenTrunc (tmp_path ''data'' ''network_devices.json''),
                 Append (tmp_path ''data'' ''network_devices.json'') txt,
                 Fsync (tmp_path ''data'' ''network_devices.json''),
                 Replace (tmp_path ''data'' ''network_devices.json'')
                   (target_path ''data'' ''network_devices.json''),
                 Remove (lock_path ''data'' ''network_devices.json'')]"
    using assms by (simp add: atomic_write_json_def split: if_splits)
  consider "n = 0" | "n = 1" | "n = 2" | "n = 3" | "n = 4" | "n = 5" | "n \<ge> 6"
    by linarith
  then show ?thesis
    by cases (simp_all add: ops lock_path_def tmp_path_def target_path_def numeral_eq_Suc)
qed

text \<open>
  C6 fails on two writers of the inventory file. The PUT handler of \<^verbatim>\<open>/api/hierarchy\<close>
  and \<^verbatim>\<open>DeviceManager.save_devices\<close> (through \<^verbatim>\<open>save_json_file\<close>) create no lock
  file, write no temporary file and rename nothing: they truncate the target and then
  write into it, so after the first step the file holds neither the old document nor the
  new one.
\<close>

theorem direct_writes_tear_target:
  "api_hierarchy_write ''data/network_devices.json'' ''NEW'' =
     [OpenTrunc ''data/network_devices.json'', Append ''data/network_devices.json'' ''NEW''] \<and>
   run_ops (take 1 (api_hierarchy_write ''data/network_devices.json'' ''NEW''))
     (Map.empty(''data/network_devices.json'' \<mapsto> ''OLD'')) ''data/network_devices.json'' = Some [] \<and>
   run_ops (api_hierarchy_write ''data/network_devices.json'' ''NEW'')
     (Map.empty(''data/network_devices.json'' \<mapsto> ''OLD'')) ''data/network_devices.json'' = Some ''NEW'' \<and>
   save_json_file ''data/network_devices.json'' ''NEW'' =
     [OpenTrunc ''data/network_devices.json'', Append ''data/network_devices.json'' ''NEW''] \<and>
   run_ops (take 1 (save_json_file ''data/network_devices.json'' ''NEW''))
     (Map.empty(''data/network_devices.json'' \<mapsto> ''OLD'')) ''data/network_devices.json'' = Some []"
  by (simp add: save_json_file_def api_hierarchy_write_def)

section \<open>Not found and unreachable (C7)\<close>

text \<open>
  C7, as the code has it. When the identifier is not a key of the index,
  \<^verbatim>\<open>get_device_state\<close> returns None without a request and the power route answers 404
  with the message \<^verbatim>\<open>Device not found or unreachable\<close>. When the identifier has an
  address and the device does not answer, \<^verbatim>\<open>get_device_state\<close> returns None as well,
  after one request, and the power route answers 404 with the same message after the
  toggle's request. The caller is given the same result in both cases.
\<close>

theorem not_found_and_unreachable_answer_alike:
  "(key_of device_id = Inr k \<and> map_of devices_data k = None \<longrightarrow>
      returned (get_device_state devices_data t now device_id) = Inr None \<and>
      calls (get_device_state devices_data t now device_id) = [] \<and>
      api_set_device_power devices_data t device_id (JDict [(''on'', JBool on_flag)]) =
        (NotFound ''Device not found or unreachable'', [])) \<and>
   (get_device_ip devices_data device_id = Inr ip \<and> truthy ip \<and>
    get_state t ip = Inr None \<and> post_state t ip (client_set_power_body on_flag) = Inr None \<longrightarrow>
      returned (get_device_state devices_data t now device_id) = Inr None \<and>
      calls (get_device_state devices_data t now device_id) = [Get ip] \<and>
      api_set_device_power devices_data t device_id (JDict [(''on'', JBool on_flag)]) =
        (NotFound ''Device not found or unreachable'', [Post ip (client_set_power_body on_flag)]))"
proof -
  have absent: "returned (get_device_state devices_data t now device_id) = Inr None \<and>
      calls (get_device_state devices_data t now device_id) = [] \<and>
      api_set_device_power devices_data t device_id (JDict [(''on'', JBool on_flag)]) =
        (NotFound ''Device not found or unreachable'', [])"
    if "key_of device_id = Inr k" and "map_of devices_data k = None"
  proof -
    have ip: "get_device_ip devices_data device_id = Inr JNull"
      using that by (simp add: get_device_ip_def)
    show ?thesis
      using that ip by (simp add: get_device_state_def api_set_device_power_def)
  qed
  have unreachable: "returned (get_device_state devices_data t now device_id) = Inr None \<and>
      calls (get_device_state devices_data t now device_id) = [Get ip] \<and>
      api_set_device_power devices_data t device_id (JDict [(''on'', JBool on_flag)]) =
        (NotFound ''Device not found or unreachable'', [Post ip (client_set_power_body on_flag)])"
    if ip: "get_device_ip devices_data device_id = Inr ip" and tr: "truthy ip"
      and g: "get_state t ip = Inr None"
      and p: "post_state t ip (client_set_power_body on_flag) = Inr None"
  proof -
    obtain k' where k': "key_of device_id = Inr k'"
      using ip by (cases "key_of device_id") (simp_all add: get_device_ip_def)
    have a: "returned (get_device_state devices_data t now device_id) = Inr None \<and>
      calls (get_device_state devices_data t now device_id) = [Get ip]"
      using ip tr g k' by (simp add: get_device_state_def)
    have b: "api_set_device_power devices_data t device_id (JDict [(''on'', JBool on_flag)]) =
        (NotFound ''Device not found or unreachable'', [Post ip (client_set_power_body on_flag)])"
      using ip tr p by (simp add: api_set_device_power_def set_device_power_def dict_get_def)
    show ?thesis using a b by blast
  qed
  show ?thesis using absent unreachable by blast
qed

theorem not_found_and_unreachable_answer_alike_witness:
  "key_of (JStr ''2'') = Inr (KInt 2) \<and> map_of fixture_devices (KInt 2) = None \<and>
   get_device_ip fixture_devices (JStr ''1'') = Inr (JStr ''10.0.0.140'') \<and>
   returned (get_device_state fixture_devices silent_transport 0 (JStr ''2'')) = Inr None \<and>
   calls (get_device_state fixture_devices silent_transport 0 (JStr ''2'')) = [] \<and>
   api_set_device_power fixture_devices silent_transport (JStr ''2'') (JDict [(''on'', JBool True)]) =
     (NotFound ''Device not found or unreachable'', []) \<and>
   returned (get_device_state fixture_devices silent_transport 0 (JStr ''1'')) = Inr None \<and>
   calls (get_device_state fixture_devices silent_transport 0 (JStr ''1'')) = [Get (JStr ''10.0.0.140'')] \<and>
   api_set_device_power fixture_devices silent_transport (JStr ''1'') (JDict [(''on'', JBool True)]) =
     (NotFound ''Device not found or unreachable'',
      [Post (JStr ''10.0.0.140'') (client_set_power_body True)])"
proof -
  have a1: "key_of (JStr ''2'') = Inr (KInt 2) \<and> map_of fixture_devices (KInt 2) = None"
    by code_simp
  have b1: "get_device_ip fixture_devices (JStr ''1'') = Inr (JStr ''10.0.0.140'')"
    by code_simp
  have b2: "truthy (JStr ''10.0.0.140'') \<and>
      get_state silent_transport (JStr ''10.0.0.140'') = Inr None \<and>
      post_state silent_transport (JStr ''10.0.0.140'') (client_set_power_body True) = Inr None"
    by (simp add: silent_transport_def)
  show ?thesis
    using not_found_and_unreachable_answer_alike
        [of "JStr ''2''" "KInt 2" fixture_devices silent_transport 0 True "JStr ''10.0.0.140''"]
      not_found_and_unreachable_answer_alike
        [of "JStr ''1''" "KInt 1" fixture_devices silent_transport 0 True "JStr ''10.0.0.140''"]
      a1 b1 b2
    by blast
qed

text \<open>
  C7 as stated fails: for identifier 1, which is in the index and whose device does not
  answer, and identifier 2, which is not in the index, the power route gives the same
  answer and \<^verbatim>\<open>get_device_state\<close> returns the same value.
\<close>

theorem absent_and_unreachable_same_answer:
  "map_of fixture_devices (KInt 1) \<noteq> None \<and>
   map_of fixture_devices (KInt 2) = None \<and>
   fst (api_set_device_power fixture_devices silent_transport (JStr ''1'') (JDict [(''on'', JBool True)])) =
   fst (api_set_device_power fixture_devices silent_transport (JStr ''2'') (JDict [(''on'', JBool True)])) \<and>
   returned (get_device_state fixture_devices silent_transport 0 (JStr ''1'')) =
   returned (get_device_state fixture_devices silent_transport 0 (JStr ''2''))"
  by code_simp

section \<open>Status tracking (C8)\<close>












section \<open>Repeating \<^verbatim>\<open>apply_saved_state\<close> (C9)\<close>





section \<open>Reload failure (C10)\<close>

lemma load_devices_try_False:
  "load_devices_try file = Inr (False, fd) \<Longrightarrow> fd = []"
  by (auto simp add: load_devices_try_def try_bind_def
      split: file_read.splits sum.splits json.splits if_splits)

text \<open>
  C10. Whenever \<^verbatim>\<open>load_devices\<close> returns False, the index afterwards is empty,
  whatever it held before. It returns False for a missing file, for a file that cannot be
  read or parsed, and for a document without a \<^verbatim>\<open>zones\<close> key. After a failed reload
  the address lookup of every identifier that can be a key finds nothing, and
  \<^verbatim>\<open>get_device_state\<close> returns None without a request.
\<close>

theorem failed_reload_empties_index:
  "(\<not> fst (load_devices file old) \<longrightarrow> snd (load_devices file old) = []) \<and>
   load_devices Missing old = (False, []) \<and>
   load_devices Unreadable old = (False, []) \<and>
   (''zones'' \<notin> set (map fst d) \<longrightarrow> load_devices (Parsed (JDict d)) old = (False, [])) \<and>
   (\<not> fst (load_devices file old) \<and> key_of device_id = Inr k \<longrightarrow>
      get_device_ip (snd (load_devices file old)) device_id = Inr JNull \<and>
      returned (get_device_state (snd (load_devices file old)) t now device_id) = Inr None \<and>
      calls (get_device_state (snd (load_devices file old)) t now device_id) = [])"
proof -
  have empty: "snd (load_devices file old) = []" if "\<not> fst (load_devices file old)"
  proof (cases "load_devices_try file")
    case (Inl e)
    then show ?thesis by (simp add: load_devices_def)
  next
    case (Inr r)
    with that have "fst r = False" by (simp add: load_devices_def)
    with Inr have "load_devices_try file = Inr (False, snd r)" by (cases r) simp
    then have "snd r = []" by (rule load_devices_try_False)
    with Inr show ?thesis by (simp add: load_devices_def)
  qed
  have missing: "load_devices Missing old = (False, [])"
    by (simp add: load_devices_def load_devices_try_def)
  have unreadable: "load_devices Unreadable old = (False, [])"
    by (simp add: load_devices_def load_devices_try_def)
  have no_zones: "load_devices (Parsed (JDict d)) old = (False, [])"
    if "''zones'' \<notin> set (map fst d)"
    using that by (simp add: load_devices_def load_devices_try_def)
  have lookup: "get_device_ip [] device_id = Inr JNull \<and>
      returned (get_device_state [] t now device_id) = Inr None \<and>
      calls (get_device_state [] t now device_id) = []"
    if "key_of device_id = Inr k"
    using that by (simp add: get_device_ip_def get_device_state_def)
  show ?thesis using empty missing unreadable no_zones lookup by metis
qed

theorem failed_reload_empties_index_witness:
  "\<not> fst (load_devices (Parsed (JList [JStr ''zones''])) fixture_devices) \<and>
   fixture_devices \<noteq> [] \<and>
   snd (load_devices (Parsed (JList [JStr ''zones''])) fixture_devices) = [] \<and>
   load_devices (Parsed (JDict [(''devices'', JList [])])) fixture_devices = (False, []) \<and>
   get_device_ip (snd (load_devices (Parsed (JList [JStr ''zones''])) fixture_devices)) (JStr ''1'')
     = Inr JNull \<and>
   returned (get_device_state (snd (load_devices (Parsed (JList [JStr ''zones''])) fixture_devices))
     fixture_transport 0 (JStr ''1'')) = Inr None"
proof -
  have h1: "\<not> fst (load_devices (Parsed (JList [JStr ''zones''])) fixture_devices)"
    by code_simp
  have h2: "''zones'' \<notin> set (map fst [(''devices'', JList [])])"
    by simp
  have h3: "key_of (JStr ''1'') = Inr (KInt 1)"
    by code_simp
  have h4: "fixture_devices \<noteq> []"
    by (simp add: fixture_devices_eq)
  show ?thesis
    using failed_reload_empties_index
        [of "Parsed (JList [JStr ''zones''])" fixture_devices "[(''devices'', JList [])]"
            "JStr ''1''" "KInt 1" fixture_transport 0]
      h1 h2 h3 h4
    by blast
qed

end
